theory Spec2Isabelle
  imports Main
begin

section \<open>Session-based authentication: src/server/auth.js\<close>

text \<open>
  The module has four request handlers (\<open>signUp\<close>, \<open>signIn\<close>, \<open>signOut\<close>,
  \<open>authenticateUser\<close>) and one helper (\<open>createSession\<close>). Each handler reads the
  request, calls the password-hashing library and the key-value store, and writes to the
  response object. The embedding makes these effects explicit:
  \<^item> the two tables are a record of two maps, passed in and returned;
  \<^item> the calls a handler makes on \<open>res\<close> are returned as a list, in call order;
  \<^item> for \<open>signUp\<close> and the \<open>createSession\<close> it calls, the calls on the store client
    are returned as a list as well (\<open>signUp_io\<close>, \<open>createSession_io\<close>);
  \<^item> what the handler reads from its surroundings (the clock, the random sources,
    \<open>NODE_ENV\<close>, and whether a store call is rejected) is a record \<open>env\<close>, one per
    handler call;
  \<^item> the hashing library is a pair of functions, a parameter of the handlers;
  \<^item> an exception is a value of type \<open>exn\<close>, and every \<open>try\<close>/\<open>catch\<close> is a
    case distinction.
\<close>

subsection \<open>Values\<close>

text \<open>
  \<open>req.body.username\<close> and \<open>req.body.password\<close> are whatever the JSON body held:
  any JSON value, or \<open>undefined\<close> when the field is missing.
\<close>

datatype jsval =
    JUndefined
  | JNull
  | JBool bool
  | JNum int
  | JStr string
  | JArr "jsval list"
  | JObj "(string \<times> jsval) list"

text \<open>
  What a \<open>catch (e)\<close> can receive: the engine's \<open>TypeError\<close> (a method call on a
  value that has no such method), the module's own \<open>new Error(message)\<close>, and an error
  object a library call rejected with (its \<open>name\<close>, its \<open>message\<close> and its
  \<open>statusCode\<close>, \<open>None\<close> when the object has none).
\<close>

datatype exn =
    TypeError
  | Error string
  | Thrown string string "nat option"

fun name :: "exn \<Rightarrow> string" where
  "name TypeError = ''TypeError''"
| "name (Error m) = ''Error''"
| "name (Thrown n m c) = n"

fun statusCode :: "exn \<Rightarrow> nat option" where
  "statusCode TypeError = None"
| "statusCode (Error m) = None"
| "statusCode (Thrown n m c) = c"

text \<open>
  JavaScript's \<open>a || b\<close> on status codes: \<open>undefined\<close> and \<open>0\<close> are falsy.
\<close>

definition or_else :: "nat option \<Rightarrow> nat option \<Rightarrow> nat option" where
  "or_else a b = (case a of None \<Rightarrow> b | Some n \<Rightarrow> if n = 0 then b else Some n)"

text \<open>
  Modelled from the spec: the table \<open>./statusCodes\<close> is imported by the module and is
  not among the sources. The keys are the ones the sources index it with; the numbers are
  the HTTP status codes of those names (the spec's example gives 409 for the Conflict
  class). A key the table does not have reads as \<open>undefined\<close>.
\<close>

definition statusCodes :: "string \<Rightarrow> nat option" where
  "statusCodes k =
     (if k = ''Bad Request'' then Some 400
      else if k = ''Unauthorized'' then Some 401
      else if k = ''Not Found'' then Some 404
      else if k = ''Conflict'' then Some 409
      else if k = ''Internal Server Error'' then Some 500
      else None)"

text \<open>
  \<open>String.prototype.toLowerCase\<close>. The model's strings are byte strings; the letters
  \<open>A\<close> to \<open>Z\<close> are mapped to \<open>a\<close> to \<open>z\<close> and every other byte is kept. The
  theorems below use no property of the mapping but that it is a function.
\<close>

definition lower_char :: "char \<Rightarrow> char" where
  "lower_char c =
     (let n = (of_char c :: nat) in if 65 \<le> n \<and> n \<le> 90 then char_of (n + 32) else c)"

definition toLowerCase :: "string \<Rightarrow> string" where
  "toLowerCase s = map lower_char s"

text \<open>
  \<open>username.toLowerCase()\<close> on a request field: only a string has the method, on any
  other JSON value (and on \<open>undefined\<close>) the call throws a \<open>TypeError\<close>.
\<close>

fun call_toLowerCase :: "jsval \<Rightarrow> exn + string" where
  "call_toLowerCase (JStr s) = Inr (toLowerCase s)"
| "call_toLowerCase v = Inl TypeError"

subsection \<open>Constants of the module\<close>

definition SALT_ROUNDS :: nat where
  "SALT_ROUNDS = 10"

definition SESSION_COOKIE_NAME :: string where
  "SESSION_COOKIE_NAME = ''sessionId''"

definition oneDayMs :: int where
  "oneDayMs = 1000 * 60 * 60 * 24"

definition SESSION_LENGTH :: int where
  "SESSION_LENGTH = oneDayMs"

subsection \<open>Records of the two tables\<close>

text \<open>
  A user item has the attributes \<open>username\<close>, \<open>password-hash\<close> and \<open>user-id\<close>.
\<close>

record user =
  username :: string
  password_hash :: string
  user_id :: string

text \<open>
  A session item has the key \<open>session-id\<close> and the attributes \<open>user-id\<close>,
  \<open>creation-date\<close> and \<open>invalidated\<close>. An item read from the table may lack any
  attribute but the key, so each is optional. \<open>creation-date\<close> is written as
  \<open>new Date().toISOString()\<close> and read back with \<open>new Date(...)\<close>; the ISO string
  has millisecond precision, so the value read is the millisecond timestamp written, and
  the model stores that timestamp.
\<close>

record session =
  session_id :: string
  session_user_id :: "string option"
  creation_date :: "int option"
  invalidated :: "bool option"

record store =
  users :: "string \<rightharpoonup> user"
  sessions :: "string \<rightharpoonup> session"

subsection \<open>The surroundings of one handler call\<close>

record env =
  now :: int                      \<comment> \<open>\<open>new Date()\<close>, in milliseconds\<close>
  random_hex :: string            \<comment> \<open>\<open>crypto.randomBytes(16).toString('hex')\<close>\<close>
  uuid :: string                  \<comment> \<open>\<open>uuidv4()\<close>\<close>
  salt :: string                  \<comment> \<open>the randomness \<open>bcrypt.hash\<close> draws\<close>
  production :: bool              \<comment> \<open>\<open>process.env.NODE_ENV === 'production'\<close>\<close>
  users_fault :: "exn option"     \<comment> \<open>the error the call on the users table fails with\<close>
  sessions_fault :: "exn option"  \<comment> \<open>the error the call on the sessions table fails with\<close>

text \<open>
  The \<open>bcrypt\<close> library: \<open>hash(data, rounds)\<close>, which draws a salt, and
  \<open>compare(data, hash)\<close>. Both return a promise that may reject.
\<close>

record bcrypt =
  bcrypt_hash :: "string \<Rightarrow> jsval \<Rightarrow> nat \<Rightarrow> exn + string"
  bcrypt_compare :: "jsval \<Rightarrow> string \<Rightarrow> exn + bool"

subsection \<open>The store client\<close>

text \<open>
  Modelled from the spec: \<open>connection.ddbClient()\<close> (the module \<open>./connection\<close> and
  the document client it returns are not among the sources). The spec's interface is
  \<open>get(table, key) -> record | absent\<close>,
  \<open>put(table, record, condition?) -> ok | ConditionFailure | Error\<close> and
  \<open>update(table, key, fieldUpdates) -> ok | Error\<close>. A call that fails leaves the table
  as it was. A conditional put on \<open>attribute_not_exists(username)\<close> fails with a
  \<open>ConditionalCheckFailedException\<close> when an item with that key exists; an
  unconditional put replaces the item of that key; an update sets the attribute on the
  item of that key, and on an item holding the key alone when there is none.
\<close>

definition ConditionalCheckFailed :: exn where
  "ConditionalCheckFailed =
     Thrown ''ConditionalCheckFailedException'' ''The conditional request failed'' (Some 400)"

definition get_user :: "exn option \<Rightarrow> store \<Rightarrow> string \<Rightarrow> exn + user option" where
  "get_user fault st k = (case fault of Some e \<Rightarrow> Inl e | None \<Rightarrow> Inr (users st k))"

definition get_session :: "exn option \<Rightarrow> store \<Rightarrow> string \<Rightarrow> exn + session option" where
  "get_session fault st k = (case fault of Some e \<Rightarrow> Inl e | None \<Rightarrow> Inr (sessions st k))"

definition put_user_if_absent :: "exn option \<Rightarrow> store \<Rightarrow> user \<Rightarrow> exn + store" where
  "put_user_if_absent fault st u =
     (case fault of
        Some e \<Rightarrow> Inl e
      | None \<Rightarrow>
          (case users st (username u) of
             Some old \<Rightarrow> Inl ConditionalCheckFailed
           | None \<Rightarrow> Inr (st\<lparr>users := (users st)(username u \<mapsto> u)\<rparr>)))"

definition put_session :: "exn option \<Rightarrow> store \<Rightarrow> session \<Rightarrow> exn + store" where
  "put_session fault st s =
     (case fault of
        Some e \<Rightarrow> Inl e
      | None \<Rightarrow> Inr (st\<lparr>sessions := (sessions st)(session_id s \<mapsto> s)\<rparr>))"

definition update_invalidated :: "exn option \<Rightarrow> store \<Rightarrow> string \<Rightarrow> exn + store" where
  "update_invalidated fault st k =
     (case fault of
        Some e \<Rightarrow> Inl e
      | None \<Rightarrow>
          (case sessions st k of
             Some s \<Rightarrow> Inr (st\<lparr>sessions := (sessions st)(k \<mapsto> s\<lparr>invalidated := Some True\<rparr>)\<rparr>)
           | None \<Rightarrow>
               Inr (st\<lparr>sessions := (sessions st)(k \<mapsto>
                 \<lparr>session_id = k, session_user_id = None, creation_date = None,
                  invalidated = Some True\<rparr>)\<rparr>)))"

subsection \<open>The response object\<close>

record cookie_options =
  maxAge :: int
  httpOnly :: bool
  sameSite :: string
  secure :: bool

text \<open>
  The bodies the module sends: \<open>{ err }\<close> (the template's text before \<open>${e}\<close>, and
  \<open>e\<close>), \<open>{ err, readableMessage }\<close>, \<open>{ readableMessage }\<close> and
  \<open>{ success: true }\<close>.
\<close>

datatype body =
    Err string exn
  | ErrReadable string exn string
  | Readable string
  | Success

text \<open>The calls on \<open>res\<close>, logged in the order the handler makes them.\<close>

datatype res_call =
    Status "nat option"
  | Send body
  | Json user
  | Cookie string string cookie_options
  | ClearCookie string

subsection \<open>createSession\<close>

text \<open>
  The calls a handler makes on the store client, for the handlers whose calls are counted
  below: the conditional \<open>put\<close> of a user item and the \<open>put\<close> of a session item.
\<close>

datatype store_call =
    PutUserIfAbsent user
  | PutSession session

text \<open>
  \<open>createSession\<close> with the calls it makes on the store client: its result, and the
  list of the calls in order, made whether the store answers or fails.
\<close>

definition createSession_io ::
  "env \<Rightarrow> store \<Rightarrow> string \<Rightarrow> (store \<times> res_call list \<times> bool) \<times> store_call list" where
  "createSession_io ev st userId =
     (let sessionId = random_hex ev;
          session = \<lparr>session_id = sessionId, session_user_id = Some userId,
                     creation_date = Some (now ev), invalidated = None\<rparr>
      in (case put_session (sessions_fault ev) st session of
            Inl e \<Rightarrow>
              (st, [Status (statusCode e), Send (Err ''Failed to create session with '' e)], False)
          | Inr st' \<Rightarrow>
              (st',
               [Cookie SESSION_COOKIE_NAME sessionId
                  \<lparr>maxAge = SESSION_LENGTH, httpOnly = True, sameSite = ''Strict'',
                   secure = production ev\<rparr>],
               True),
          [PutSession session]))"

definition createSession :: "env \<Rightarrow> store \<Rightarrow> string \<Rightarrow> store \<times> res_call list \<times> bool" where
  "createSession ev st userId = fst (createSession_io ev st userId)"

subsection \<open>signUp\<close>

text \<open>The outer \<open>catch\<close> of \<open>signUp\<close>.\<close>

definition signUp_catch :: "exn \<Rightarrow> res_call list" where
  "signUp_catch e =
     [Status (or_else (statusCode e) (statusCodes ''Internal Server Error'')),
      Send (Err ''Failed to sign up with '' e)]"

text \<open>
  \<open>signUp\<close> with the calls it makes on the store client: its result (the store and the
  calls on \<open>res\<close>), and the list of the store calls in order.
\<close>

definition signUp_io ::
  "bcrypt \<Rightarrow> env \<Rightarrow> store \<Rightarrow> jsval \<Rightarrow> jsval \<Rightarrow> (store \<times> res_call list) \<times> store_call list" where
  "signUp_io B ev st username_v password =
     (case bcrypt_hash B (salt ev) password SALT_ROUNDS of
        Inl e \<Rightarrow> ((st, signUp_catch e), [])
      | Inr passwordHash \<Rightarrow>
          (case call_toLowerCase username_v of
             Inl e \<Rightarrow> ((st, signUp_catch e), [])
           | Inr lowered \<Rightarrow>
               (let u = \<lparr>username = lowered, password_hash = passwordHash, user_id = uuid ev\<rparr>
                in case put_user_if_absent (users_fault ev) st u of
                     Inl e \<Rightarrow>
                       (if name e = ''ConditionalCheckFailedException''
                        then (st,
                              [Status (statusCodes ''Conflict''),
                               Send (ErrReadable ''Failed to sign up with error '' e
                                       ''Username already exists'')])
                        else (st, signUp_catch e),
                        [PutUserIfAbsent u])
                   | Inr st1 \<Rightarrow>
                       (case createSession_io ev st1 (user_id u) of
                          ((st2, calls, successfullyCreatedSession), io) \<Rightarrow>
                            (if successfullyCreatedSession then (st2, calls @ [Json u])
                             else (st2, calls @ signUp_catch (Error ''Failed to create session'')),
                             PutUserIfAbsent u # io)))))"

definition signUp :: "bcrypt \<Rightarrow> env \<Rightarrow> store \<Rightarrow> jsval \<Rightarrow> jsval \<Rightarrow> store \<times> res_call list" where
  "signUp B ev st username_v password = fst (signUp_io B ev st username_v password)"

subsection \<open>signIn\<close>

text \<open>
  The \<open>catch\<close> of \<open>signIn\<close>; its message reads "sign up" in the source as well.
\<close>

definition signIn_catch :: "exn \<Rightarrow> res_call list" where
  "signIn_catch e =
     [Status (or_else (statusCode e) (statusCodes ''Internal Server Error'')),
      Send (Err ''Failed to sign up with '' e)]"

text \<open>
  \<open>signIn\<close> builds the key, \<open>username.toLowerCase()\<close>, before its \<open>try\<close>: an
  exception there is not caught, the handler's promise rejects and nothing is sent
  (\<open>Inl\<close>).
\<close>

definition signIn :: "bcrypt \<Rightarrow> env \<Rightarrow> store \<Rightarrow> jsval \<Rightarrow> jsval \<Rightarrow> exn + store \<times> res_call list" where
  "signIn B ev st username_v password =
     (case call_toLowerCase username_v of
        Inl e \<Rightarrow> Inl e
      | Inr key \<Rightarrow>
          Inr (case get_user (users_fault ev) st key of
                 Inl e \<Rightarrow> (st, signIn_catch e)
               | Inr None \<Rightarrow>
                   (st, [Status (statusCodes ''Not Found''), Send (Readable ''Username not found'')])
               | Inr (Some u) \<Rightarrow>
                   (case bcrypt_compare B password (password_hash u) of
                      Inl e \<Rightarrow> (st, signIn_catch e)
                    | Inr passwordMatch \<Rightarrow>
                        if \<not> passwordMatch
                        then (st,
                              [Status (statusCodes ''Unauthorized''),
                               Send (Readable ''Incorrect password'')])
                        else
                          (case createSession ev st (user_id u) of
                             (st', calls, successfullyCreatedSession) \<Rightarrow>
                               if successfullyCreatedSession then (st', calls @ [Json u])
                               else (st', calls @ signIn_catch (Error ''Failed to create session''))))))"

subsection \<open>signOut\<close>

text \<open>\<open>req.cookies.sessionId\<close> is the cookie's value, a string.\<close>

definition signOut :: "env \<Rightarrow> store \<Rightarrow> string \<Rightarrow> store \<times> res_call list" where
  "signOut ev st sessionId =
     (case update_invalidated (sessions_fault ev) st sessionId of
        Inr st' \<Rightarrow> (st', [ClearCookie SESSION_COOKIE_NAME, Send Success])
      | Inl e \<Rightarrow>
          (st,
           [Status (or_else (statusCode e) (statusCodes ''Internal Server Error'')),
            Send (Err ''Failed to sign out with '' e)]))"

subsection \<open>authenticateUser\<close>

text \<open>
  The middleware either answers the request itself or sets \<open>res.locals.userId\<close> and
  calls \<open>next()\<close>. \<open>session.invalidated\<close> is tested for truthiness: an absent
  attribute and \<open>false\<close> are falsy. A session item without \<open>creation-date\<close> gives
  an invalid date, the difference is \<open>NaN\<close> and \<open>NaN > SESSION_LENGTH\<close> is false.
\<close>

datatype auth_result =
    Responded "res_call list"
  | Next "string option"

definition authenticateUser :: "env \<Rightarrow> store \<Rightarrow> string \<Rightarrow> auth_result" where
  "authenticateUser ev st sessionId =
     (case get_session (sessions_fault ev) st sessionId of
        Inl e \<Rightarrow>
          Responded
            [Status (or_else (statusCode e) (statusCodes ''Internal Server Error'')),
             Send (Err ''Failed to authenticate user with '' e)]
      | Inr None \<Rightarrow>
          Responded [Status (statusCodes ''Unauthorized''), Send (Readable ''Session does not exist'')]
      | Inr (Some s) \<Rightarrow>
          if invalidated s = Some True
          then Responded [Status (statusCodes ''Unauthorized''), Send (Readable ''Invalid session'')]
          else
            (let sessionExpired =
                   (case creation_date s of None \<Rightarrow> False | Some c \<Rightarrow> now ev - c > SESSION_LENGTH)
             in if sessionExpired
                then Responded [Status (statusCodes ''Unauthorized''), Send (Readable ''Session expired'')]
                else Next (session_user_id s)))"

subsection \<open>Sequences of requests\<close>

text \<open>
  The store after a request, and after a sequence of requests, each with its own
  surroundings. Every handler makes at most one call on the sessions table, and the store
  serves calls one at a time, so for the sessions table a sequence of handler runs stands
  for any interleaving of them.
\<close>

datatype request =
    SignUp jsval jsval
  | SignIn jsval jsval
  | SignOut string
  | AuthenticateUser string

fun handle :: "bcrypt \<Rightarrow> env \<Rightarrow> store \<Rightarrow> request \<Rightarrow> store" where
  "handle B ev st (SignUp u p) = fst (signUp B ev st u p)"
| "handle B ev st (SignIn u p) = (case signIn B ev st u p of Inl e \<Rightarrow> st | Inr r \<Rightarrow> fst r)"
| "handle B ev st (SignOut sid) = fst (signOut ev st sid)"
| "handle B ev st (AuthenticateUser sid) = st"

fun run :: "bcrypt \<Rightarrow> store \<Rightarrow> (env \<times> request) list \<Rightarrow> store" where
  "run B st [] = st"
| "run B st (x # xs) = run B (handle B (fst x) st (snd x)) xs"

subsection \<open>The specification's notion of a valid session\<close>

text \<open>
  In the specification's words: a session is valid at time \<open>T\<close> iff the record exists,
  \<open>invalidated\<close> is false or absent, and \<open>T - creationDate \<le> SESSION_LENGTH\<close>.
\<close>

definition spec_valid :: "store \<Rightarrow> string \<Rightarrow> int \<Rightarrow> bool" where
  "spec_valid st sid T =
     (case sessions st sid of
        None \<Rightarrow> False
      | Some s \<Rightarrow>
          (invalidated s = None \<or> invalidated s = Some False) \<and>
          (case creation_date s of None \<Rightarrow> False | Some c \<Rightarrow> T - c \<le> SESSION_LENGTH))"

text \<open>
  The session items the module writes: \<open>createSession\<close> puts an item with a
  \<open>creation-date\<close>, and \<open>signOut\<close> on a key without an item leaves one that is
  invalidated.
\<close>

definition written_by_module :: "session \<Rightarrow> bool" where
  "written_by_module s = (creation_date s \<noteq> None \<or> invalidated s = Some True)"

text \<open>Every session item of the table is one the module writes.\<close>

definition all_written :: "store \<Rightarrow> bool" where
  "all_written st = (\<forall>k s. sessions st k = Some s \<longrightarrow> written_by_module s)"

subsection \<open>Concrete inputs\<close>

text \<open>
  A stand-in for the hashing library, for evaluating the handlers on concrete requests:
  it accepts any string, the empty one too, and rejects every other value, as the
  library does.
\<close>

definition example_bcrypt :: bcrypt where
  "example_bcrypt =
     \<lparr>bcrypt_hash = (\<lambda>s d r. case d of
          JStr p \<Rightarrow> Inr (''$2b$'' @ p)
        | JUndefined \<Rightarrow> Inl (Thrown ''Error'' ''data and salt arguments required'' None)
        | JNull \<Rightarrow> Inl (Thrown ''Error'' ''data and salt arguments required'' None)
        | _ \<Rightarrow> Inl (Thrown ''Error'' ''data must be a string or Buffer'' None)),
      bcrypt_compare = (\<lambda>d h. case d of
          JStr p \<Rightarrow> Inr (h = ''$2b$'' @ p)
        | JUndefined \<Rightarrow> Inl (Thrown ''Error'' ''data and hash arguments required'' None)
        | JNull \<Rightarrow> Inl (Thrown ''Error'' ''data and hash arguments required'' None)
        | _ \<Rightarrow> Inl (Thrown ''Error'' ''data must be a string or Buffer'' None))\<rparr>"

text \<open>Surroundings with the clock at \<open>T\<close>, the random session id \<open>r\<close>, and a working store.\<close>

definition clock :: "int \<Rightarrow> string \<Rightarrow> env" where
  "clock T r =
     \<lparr>now = T, random_hex = r, uuid = ''110ec58a-a0f2-4ac4-8393-c866d813b8d1'',
      salt = ''N9qo8uLOickgx2ZMRZoMye'', production = False, users_fault = None,
      sessions_fault = None\<rparr>"

definition empty_store :: store where
  "empty_store = \<lparr>users = Map.empty, sessions = Map.empty\<rparr>"

definition sid1 :: string where
  "sid1 = ''9f86d081884c7d659a2feaa0c55ad015''"

definition sid2 :: string where
  "sid2 = ''60303ae22b998861bce3b28f33eec1be''"

text \<open>The store after \<open>createSession\<close> for user \<open>u-1\<close> at time \<open>T\<close>.\<close>

definition session_at :: "int \<Rightarrow> store" where
  "session_at T = fst (createSession (clock T sid1) empty_store ''u-1'')"

text \<open>The session of \<open>session_at 5000\<close>, signed out at time 6000.\<close>

definition signed_out_session :: store where
  "signed_out_session = fst (signOut (clock 6000 sid2) (session_at 5000) sid1)"

text \<open>Surroundings in which the call on the sessions table fails with \<open>e\<close>.\<close>

definition store_down :: "exn \<Rightarrow> env" where
  "store_down e = (clock 7000 sid2)\<lparr>sessions_fault := Some e\<rparr>"

text \<open>The store after Alice signed up at time 5000, her record, and the session cookie.\<close>

definition alice_signed_up :: store where
  "alice_signed_up =
     fst (signUp example_bcrypt (clock 5000 sid1) empty_store (JStr ''Alice'') (JStr ''correcthorse''))"

definition alice :: user where
  "alice = \<lparr>username = ''alice'', password_hash = ''$2b$correcthorse'',
            user_id = ''110ec58a-a0f2-4ac4-8393-c866d813b8d1''\<rparr>"

definition session_cookie :: "string \<Rightarrow> res_call" where
  "session_cookie sid = Cookie ''sessionId'' sid
     \<lparr>maxAge = 86400000, httpOnly = True, sameSite = ''Strict'', secure = False\<rparr>"

section \<open>Properties\<close>

subsection \<open>Auxiliary facts\<close>

text \<open>\<open>createSession\<close> and \<open>signUp\<close> without the list of store calls.\<close>

lemma createSession_unfold:
  "createSession ev st userId =
     (let sessionId = random_hex ev;
          session = \<lparr>session_id = sessionId, session_user_id = Some userId,
                     creation_date = Some (now ev), invalidated = None\<rparr>
      in case put_session (sessions_fault ev) st session of
           Inl e \<Rightarrow>
             (st, [Status (statusCode e), Send (Err ''Failed to create session with '' e)], False)
         | Inr st' \<Rightarrow>
             (st',
              [Cookie SESSION_COOKIE_NAME sessionId
                 \<lparr>maxAge = SESSION_LENGTH, httpOnly = True, sameSite = ''Strict'',
                  secure = production ev\<rparr>],
              True))"
  by (simp add: createSession_def createSession_io_def Let_def)

lemma signUp_unfold:
  "signUp B ev st username_v password =
     (case bcrypt_hash B (salt ev) password SALT_ROUNDS of
        Inl e \<Rightarrow> (st, signUp_catch e)
      | Inr passwordHash \<Rightarrow>
          (case call_toLowerCase username_v of
             Inl e \<Rightarrow> (st, signUp_catch e)
           | Inr lowered \<Rightarrow>
               (let u = \<lparr>username = lowered, password_hash = passwordHash, user_id = uuid ev\<rparr>
                in case put_user_if_absent (users_fault ev) st u of
                     Inl e \<Rightarrow>
                       if name e = ''ConditionalCheckFailedException''
                       then (st,
                             [Status (statusCodes ''Conflict''),
                              Send (ErrReadable ''Failed to sign up with error '' e
                                      ''Username already exists'')])
                       else (st, signUp_catch e)
                   | Inr st1 \<Rightarrow>
                       (case createSession ev st1 (user_id u) of
                          (st2, calls, successfullyCreatedSession) \<Rightarrow>
                            if successfullyCreatedSession then (st2, calls @ [Json u])
                            else (st2, calls @ signUp_catch (Error ''Failed to create session''))))))"
  by (simp add: signUp_def signUp_io_def createSession_def Let_def
      split: sum.splits prod.splits)

lemma not_Some_True: "(b \<noteq> Some True) = (b = None \<or> b = Some False)"
  by (cases b) auto

lemma signUp_other:
  "random_hex ev \<noteq> sid \<Longrightarrow> sessions (fst (signUp B ev st u p)) sid = sessions st sid"
  by (auto simp: signUp_unfold put_user_if_absent_def createSession_unfold put_session_def Let_def
      split: sum.splits option.splits)

lemma signIn_other:
  "random_hex ev \<noteq> sid \<Longrightarrow> signIn B ev st u p = Inr r \<Longrightarrow> sessions (fst r) sid = sessions st sid"
  by (auto simp: signIn_def get_user_def createSession_unfold put_session_def Let_def
      split: sum.splits option.splits if_splits)

lemma signOut_other:
  "k \<noteq> sid \<Longrightarrow> sessions (fst (signOut ev st k)) sid = sessions st sid"
  by (simp add: signOut_def update_invalidated_def split: option.splits)

lemma signOut_same:
  "sessions st sid = Some s \<Longrightarrow>
   sessions (fst (signOut ev st sid)) sid = Some s \<or>
   sessions (fst (signOut ev st sid)) sid = Some (s\<lparr>invalidated := Some True\<rparr>)"
  by (simp add: signOut_def update_invalidated_def split: option.splits)

text \<open>
  One request changes an existing session item only when it is \<open>signOut\<close> of that
  session, and then only by setting \<open>invalidated\<close>; the session id drawn by
  \<open>createSession\<close> is taken to differ from the item's.
\<close>

lemma handle_session:
  assumes "sessions st sid = Some s" and "random_hex ev \<noteq> sid"
  shows "sessions (handle B ev st r) sid = Some s \<or>
         (r = SignOut sid \<and> sessions (handle B ev st r) sid = Some (s\<lparr>invalidated := Some True\<rparr>))"
proof (cases r)
  case (SignUp u p)
  with assms show ?thesis by (simp add: signUp_other)
next
  case (SignIn u p)
  with assms show ?thesis by (simp add: signIn_other split: sum.splits)
next
  case (SignOut k)
  show ?thesis
  proof (cases "k = sid")
    case True
    with SignOut signOut_same [OF assms(1), of ev] show ?thesis by auto
  next
    case False
    with SignOut assms show ?thesis by (simp add: signOut_other)
  qed
next
  case (AuthenticateUser k)
  with assms show ?thesis by simp
qed

lemma run_session:
  assumes "sessions st sid = Some s" and "\<forall>x \<in> set tr. random_hex (fst x) \<noteq> sid"
  shows "sessions (run B st tr) sid = Some s \<or>
         (SignOut sid \<in> snd ` set tr \<and>
          sessions (run B st tr) sid = Some (s\<lparr>invalidated := Some True\<rparr>))"
  using assms
proof (induction tr arbitrary: st s)
  case Nil
  then show ?case by simp
next
  case (Cons x xs)
  from Cons.prems have fresh: "random_hex (fst x) \<noteq> sid"
    and rest: "\<forall>y \<in> set xs. random_hex (fst y) \<noteq> sid" by simp_all
  from handle_session [OF Cons.prems(1) fresh, of B "snd x"]
  show ?case
  proof
    assume "sessions (handle B (fst x) st (snd x)) sid = Some s"
    from Cons.IH [OF this rest] show ?thesis by auto
  next
    assume "snd x = SignOut sid \<and>
      sessions (handle B (fst x) st (snd x)) sid = Some (s\<lparr>invalidated := Some True\<rparr>)"
    then have out: "snd x = SignOut sid"
      and inv: "sessions (handle B (fst x) st (snd x)) sid = Some (s\<lparr>invalidated := Some True\<rparr>)"
      by blast+
    from Cons.IH [OF inv rest] out show ?thesis by auto
  qed
qed

lemma lower_Alice: "toLowerCase ''Alice'' = ''alice''"
  by code_simp

lemma lower_ALICE: "toLowerCase ''ALICE'' = ''alice''"
  by code_simp

lemma alice_signed_up_eq:
  "signUp example_bcrypt (clock 5000 sid1) empty_store (JStr ''Alice'') (JStr ''correcthorse'') =
     (\<lparr>users = [''alice'' \<mapsto> alice],
       sessions = [sid1 \<mapsto> \<lparr>session_id = sid1, session_user_id = Some (user_id alice),
                               creation_date = Some 5000, invalidated = None\<rparr>]\<rparr>,
      [session_cookie sid1, Json alice])"
  by (simp add: signUp_unfold example_bcrypt_def clock_def empty_store_def lower_Alice
      put_user_if_absent_def createSession_unfold put_session_def alice_def session_cookie_def
      SESSION_COOKIE_NAME_def SESSION_LENGTH_def oneDayMs_def Let_def)

lemma alice_signed_up_users: "users alice_signed_up = [''alice'' \<mapsto> alice]"
  by (simp add: alice_signed_up_def alice_signed_up_eq)

text \<open>
  A response with \<open>res.json(user)\<close> in it is the success response: the cookie and the
  record, and the record is the one in the users table.
\<close>

lemma signUp_Json:
  assumes "Json x \<in> set (snd (signUp B ev st uv p))"
  shows "\<exists>u. uv = JStr u \<and> bcrypt_hash B (salt ev) p SALT_ROUNDS = Inr (password_hash x)
           \<and> x = \<lparr>username = toLowerCase u, password_hash = password_hash x, user_id = uuid ev\<rparr>
           \<and> users st (toLowerCase u) = None
           \<and> users (fst (signUp B ev st uv p)) = (users st)(toLowerCase u \<mapsto> x)
           \<and> snd (signUp B ev st uv p) =
               [Cookie SESSION_COOKIE_NAME (random_hex ev)
                  \<lparr>maxAge = SESSION_LENGTH, httpOnly = True, sameSite = ''Strict'',
                   secure = production ev\<rparr>, Json x]"
proof (cases uv)
  case (JStr u)
  with assms show ?thesis
    by (auto simp: signUp_unfold signUp_catch_def put_user_if_absent_def createSession_unfold
        put_session_def Let_def split: sum.splits option.splits if_splits)
qed (use assms in \<open>auto simp: signUp_unfold signUp_catch_def split: sum.splits\<close>)

lemma signIn_Json:
  assumes "signIn B ev st uv p = Inr r" and "Json x \<in> set (snd r)"
  shows "\<exists>u. uv = JStr u \<and> users st (toLowerCase u) = Some x
           \<and> bcrypt_compare B p (password_hash x) = Inr True
           \<and> users (fst r) = users st
           \<and> snd r =
               [Cookie SESSION_COOKIE_NAME (random_hex ev)
                  \<lparr>maxAge = SESSION_LENGTH, httpOnly = True, sameSite = ''Strict'',
                   secure = production ev\<rparr>, Json x]"
proof (cases uv)
  case (JStr u)
  with assms show ?thesis
    by (auto simp: signIn_def signIn_catch_def get_user_def createSession_unfold
        put_session_def Let_def split: sum.splits option.splits if_splits)
qed (use assms in \<open>auto simp: signIn_def\<close>)

lemma signIn_success:
  assumes "users st (toLowerCase u) = Some x"
    and "bcrypt_compare B p (password_hash x) = Inr True"
    and "users_fault ev = None" and "sessions_fault ev = None"
  shows "\<exists>st'. signIn B ev st (JStr u) p =
           Inr (st', [Cookie SESSION_COOKIE_NAME (random_hex ev)
                  \<lparr>maxAge = SESSION_LENGTH, httpOnly = True, sameSite = ''Strict'',
                   secure = production ev\<rparr>, Json x])"
  using assms
  by (simp add: signIn_def get_user_def createSession_unfold put_session_def Let_def)

lemma example_bcrypt_contract:
  "\<forall>s d h. bcrypt_hash example_bcrypt s d SALT_ROUNDS = Inr h \<longrightarrow>
     bcrypt_compare example_bcrypt d h = Inr True"
  by (auto simp: example_bcrypt_def split: jsval.splits)

lemma clock_faults: "users_fault (clock T r) = None" "sessions_fault (clock T r) = None"
  by (simp_all add: clock_def)

lemma signUp_success:
  assumes "bcrypt_hash B (salt ev) p SALT_ROUNDS = Inr h"
    and "users st (toLowerCase u) = None"
    and "users_fault ev = None" and "sessions_fault ev = None"
  shows "\<exists>st'. signUp B ev st (JStr u) p =
           (st', [Cookie SESSION_COOKIE_NAME (random_hex ev)
                  \<lparr>maxAge = SESSION_LENGTH, httpOnly = True, sameSite = ''Strict'',
                   secure = production ev\<rparr>,
                  Json \<lparr>username = toLowerCase u, password_hash = h, user_id = uuid ev\<rparr>])
         \<and> users st' (toLowerCase u) =
             Some \<lparr>username = toLowerCase u, password_hash = h, user_id = uuid ev\<rparr>"
  using assms
  by (simp add: signUp_unfold put_user_if_absent_def createSession_unfold put_session_def Let_def)

text \<open>
  Every store the module reaches from the empty one holds only session items it writes.
\<close>

lemma all_written_users: "all_written (st\<lparr>users := m\<rparr>) = all_written st"
  by (simp add: all_written_def)

lemma written_created:
  "written_by_module \<lparr>session_id = a, session_user_id = b, creation_date = Some c, invalidated = d\<rparr>"
  by (simp add: written_by_module_def)

lemma written_invalidated:
  "written_by_module (s\<lparr>invalidated := Some True\<rparr>)"
  "written_by_module \<lparr>session_id = a, session_user_id = b, creation_date = c, invalidated = Some True\<rparr>"
  by (simp_all add: written_by_module_def)

lemma createSession_written:
  "createSession ev st uid = (st', calls, ok) \<Longrightarrow> all_written st \<Longrightarrow> all_written st'"
  by (auto simp: all_written_def createSession_unfold put_session_def written_created Let_def
      split: option.splits if_splits)

lemma handle_written:
  assumes "all_written st"
  shows "all_written (handle B ev st r)"
proof (cases r)
  case (SignUp u p)
  with assms show ?thesis
    by (auto simp: signUp_unfold put_user_if_absent_def all_written_users Let_def
        split: sum.splits option.splits prod.splits dest: createSession_written)
next
  case (SignIn u p)
  with assms show ?thesis
    by (auto simp: signIn_def get_user_def
        split: sum.splits option.splits prod.splits dest: createSession_written)
next
  case (SignOut k)
  with assms show ?thesis
    by (auto simp: signOut_def update_invalidated_def all_written_def written_invalidated
        split: option.splits if_splits)
next
  case (AuthenticateUser k)
  with assms show ?thesis by simp
qed

lemma run_written: "all_written st \<Longrightarrow> all_written (run B st tr)"
  by (induction tr arbitrary: st) (simp_all add: handle_written)

lemma empty_store_written: "all_written empty_store"
  by (simp add: all_written_def empty_store_def)

subsection \<open>Session validity\<close>

text \<open>
  Claim C1. When the read of the sessions table succeeds, \<open>authenticateUser\<close> lets the
  request through at time \<open>T\<close> exactly when the session is valid at \<open>T\<close> in the
  specification's sense: the item exists, its \<open>invalidated\<close> flag is false or absent,
  and \<open>T\<close> minus its creation date is at most \<open>SESSION_LENGTH\<close>. The item is one
  the module writes, as every item is in a store reached from the empty one
  (\<open>run_written\<close>). The boundary is inclusive: the test is \<open>> SESSION_LENGTH\<close>.
\<close>

theorem authenticateUser_valid_iff:
  assumes "sessions_fault ev = None"
    and "\<forall>s. sessions st sid = Some s \<longrightarrow> written_by_module s"
  shows "(\<exists>uid. authenticateUser ev st sid = Next uid) = spec_valid st sid (now ev)"
proof (cases "sessions st sid")
  case None
  with assms(1) show ?thesis
    by (simp add: authenticateUser_def get_session_def spec_valid_def)
next
  case (Some s)
  with assms(2) have w: "written_by_module s" by simp
  show ?thesis
  proof (cases "invalidated s = Some True")
    case True
    with Some assms(1) show ?thesis
      by (simp add: authenticateUser_def get_session_def spec_valid_def)
  next
    case False
    with w obtain c where c: "creation_date s = Some c"
      by (auto simp: written_by_module_def)
    from False have "invalidated s = None \<or> invalidated s = Some False"
      by (simp add: not_Some_True)
    with Some assms(1) c False show ?thesis
      by (auto simp: authenticateUser_def get_session_def spec_valid_def)
  qed
qed

text \<open>
  A session created at time 5000 passes 23h59m later and exactly 24 hours later, and
  fails one millisecond after that and at 24h01m.
\<close>

theorem authenticateUser_valid_iff_witness:
  "(\<exists>uid. authenticateUser (clock (5000 + 86340000) sid2) (session_at 5000) sid1 = Next uid)
   \<and> (\<exists>uid. authenticateUser (clock (5000 + 86400000) sid2) (session_at 5000) sid1 = Next uid)
   \<and> \<not> (\<exists>uid. authenticateUser (clock (5000 + 86400001) sid2) (session_at 5000) sid1 = Next uid)
   \<and> \<not> (\<exists>uid. authenticateUser (clock (5000 + 86460000) sid2) (session_at 5000) sid1 = Next uid)"
  using authenticateUser_valid_iff [of "clock (5000 + 86340000) sid2" "session_at 5000" sid1]
    authenticateUser_valid_iff [of "clock (5000 + 86400000) sid2" "session_at 5000" sid1]
    authenticateUser_valid_iff [of "clock (5000 + 86400001) sid2" "session_at 5000" sid1]
    authenticateUser_valid_iff [of "clock (5000 + 86460000) sid2" "session_at 5000" sid1]
  by (simp add: clock_def session_at_def empty_store_def createSession_unfold put_session_def
      spec_valid_def written_by_module_def SESSION_LENGTH_def oneDayMs_def Let_def)

subsection \<open>The order of the checks\<close>

text \<open>
  Claim C2. When the read of the sessions table succeeds, \<open>authenticateUser\<close> answers
  Unauthorized "Session does not exist" when there is no item; otherwise Unauthorized
  "Invalid session" when the item's \<open>invalidated\<close> flag is true, whatever its age;
  otherwise Unauthorized "Session expired" when the session is older than
  \<open>SESSION_LENGTH\<close>; otherwise it passes the item's \<open>user-id\<close> on to the next
  handler.
\<close>

theorem authenticateUser_checks_in_order:
  assumes "sessions_fault ev = None"
  shows "(sessions st sid = None \<longrightarrow>
            authenticateUser ev st sid =
              Responded [Status (statusCodes ''Unauthorized''),
                         Send (Readable ''Session does not exist'')])
       \<and> (\<forall>s. sessions st sid = Some s \<and> invalidated s = Some True \<longrightarrow>
            authenticateUser ev st sid =
              Responded [Status (statusCodes ''Unauthorized''), Send (Readable ''Invalid session'')])
       \<and> (\<forall>s c. sessions st sid = Some s \<and> invalidated s \<noteq> Some True \<and>
                 creation_date s = Some c \<and> now ev - c > SESSION_LENGTH \<longrightarrow>
            authenticateUser ev st sid =
              Responded [Status (statusCodes ''Unauthorized''), Send (Readable ''Session expired'')])
       \<and> (\<forall>s c. sessions st sid = Some s \<and> invalidated s \<noteq> Some True \<and>
                 creation_date s = Some c \<and> now ev - c \<le> SESSION_LENGTH \<longrightarrow>
            authenticateUser ev st sid = Next (session_user_id s))"
  using assms by (simp add: authenticateUser_def get_session_def)

text \<open>
  No item; an item both signed out and older than a day; an item older than a day; a
  fresh item.
\<close>

theorem authenticateUser_checks_in_order_witness:
  "authenticateUser (clock 7000 sid2) empty_store sid1 =
     Responded [Status (Some 401), Send (Readable ''Session does not exist'')]
   \<and> authenticateUser (clock (5000 + 86460000) sid2) signed_out_session sid1 =
     Responded [Status (Some 401), Send (Readable ''Invalid session'')]
   \<and> authenticateUser (clock (5000 + 86460000) sid2) (session_at 5000) sid1 =
     Responded [Status (Some 401), Send (Readable ''Session expired'')]
   \<and> authenticateUser (clock 7000 sid2) (session_at 5000) sid1 = Next (Some ''u-1'')"
  using authenticateUser_checks_in_order [of "clock 7000 sid2" empty_store sid1]
    authenticateUser_checks_in_order [of "clock (5000 + 86460000) sid2" signed_out_session sid1]
    authenticateUser_checks_in_order [of "clock (5000 + 86460000) sid2" "session_at 5000" sid1]
    authenticateUser_checks_in_order [of "clock 7000 sid2" "session_at 5000" sid1]
  by (simp add: clock_def session_at_def empty_store_def signed_out_session_def
      createSession_unfold put_session_def signOut_def update_invalidated_def statusCodes_def
      SESSION_LENGTH_def oneDayMs_def Let_def sid1_def sid2_def)

subsection \<open>Signing out\<close>

text \<open>
  Claim C3. Let the session item of \<open>sid\<close> exist and \<open>signOut\<close> of it complete with
  \<open>{ success: true }\<close>. Then after any further requests to the module, at any time,
  \<open>authenticateUser\<close> of \<open>sid\<close> (its read succeeding) answers Unauthorized "Invalid
  session": before the 24 hours have passed and after. The session ids the further
  requests draw differ from \<open>sid\<close>.
\<close>

theorem signOut_then_authenticateUser:
  assumes "sessions st sid = Some s"
    and "signOut ev1 st sid = (st1, [ClearCookie SESSION_COOKIE_NAME, Send Success])"
    and "\<forall>x \<in> set tr. random_hex (fst x) \<noteq> sid"
    and "sessions_fault ev2 = None"
  shows "authenticateUser ev2 (run B st1 tr) sid =
           Responded [Status (statusCodes ''Unauthorized''), Send (Readable ''Invalid session'')]"
proof -
  from assms(1,2) have "sessions st1 sid = Some (s\<lparr>invalidated := Some True\<rparr>)"
    by (auto simp: signOut_def update_invalidated_def split: option.splits)
  from run_session [OF this assms(3), of B]
  have "sessions (run B st1 tr) sid = Some (s\<lparr>invalidated := Some True\<rparr>)"
    by auto
  with assms(4) show ?thesis
    by (simp add: authenticateUser_def get_session_def)
qed

theorem signOut_then_authenticateUser_witness:
  "authenticateUser (clock 7000 sid2) (run example_bcrypt signed_out_session []) sid1 =
     Responded [Status (Some 401), Send (Readable ''Invalid session'')]
   \<and> authenticateUser (clock (5000 + 86460000) sid2)
       (run example_bcrypt signed_out_session
          [(clock 8000 sid2, SignUp (JStr ''Alice'') (JStr ''correcthorse'')),
           (clock 9000 sid2, SignOut sid1)]) sid1 =
     Responded [Status (Some 401), Send (Readable ''Invalid session'')]"
proof -
  have a: "sessions (session_at 5000) sid1 =
      Some \<lparr>session_id = sid1, session_user_id = Some ''u-1'', creation_date = Some 5000,
            invalidated = None\<rparr>"
    by (simp add: session_at_def clock_def empty_store_def createSession_unfold put_session_def
        Let_def)
  have b: "signOut (clock 6000 sid2) (session_at 5000) sid1 =
      (signed_out_session, [ClearCookie SESSION_COOKIE_NAME, Send Success])"
    by (simp add: signed_out_session_def signOut_def update_invalidated_def clock_def
        split: option.splits)
  have c: "sid2 \<noteq> sid1"
    by (simp add: sid1_def sid2_def)
  have d: "sessions_fault (clock T r) = None" for T r
    by (simp add: clock_def)
  have e: "random_hex (clock T r) = r" for T r
    by (simp add: clock_def)
  have f: "statusCodes ''Unauthorized'' = Some 401"
    by (simp add: statusCodes_def)
  show ?thesis
    using signOut_then_authenticateUser [OF a b _ d, of "[]" 7000 sid2 example_bcrypt]
      signOut_then_authenticateUser [OF a b _ d,
        of "[(clock 8000 sid2, SignUp (JStr ''Alice'') (JStr ''correcthorse'')),
             (clock 9000 sid2, SignOut sid1)]" "5000 + 86460000" sid2 example_bcrypt]
    by (simp add: c e f)
qed

text \<open>
  Claim C9. Whatever the session id and the state of the table, \<open>signOut\<close> clears the
  cookie and sends \<open>{ success: true }\<close> when the update succeeds. When the update
  fails with \<open>e\<close>, the table is as before and the response is \<open>{ err }\<close> with the
  error's status code, or with that of Internal Server Error.
\<close>

theorem signOut_outcome:
  "(sessions_fault ev = None \<longrightarrow>
      snd (signOut ev st sid) = [ClearCookie SESSION_COOKIE_NAME, Send Success])
   \<and> (\<forall>e. sessions_fault ev = Some e \<longrightarrow>
        fst (signOut ev st sid) = st \<and>
        (\<exists>c. snd (signOut ev st sid) =
                [Status (Some c), Send (Err ''Failed to sign out with '' e)] \<and>
             (statusCode e = Some c \<or> statusCodes ''Internal Server Error'' = Some c)))"
  by (auto simp: signOut_def update_invalidated_def or_else_def statusCodes_def
      split: option.splits)

text \<open>
  Signing out a live session, a session already signed out and a session id without an
  item all succeed; a rejected update gives the failure.
\<close>

theorem signOut_outcome_witness:
  "snd (signOut (clock 7000 sid2) (session_at 5000) sid1) =
     [ClearCookie ''sessionId'', Send Success]
   \<and> snd (signOut (clock 7000 sid2) signed_out_session sid1) =
     [ClearCookie ''sessionId'', Send Success]
   \<and> snd (signOut (clock 7000 sid2) empty_store sid1) =
     [ClearCookie ''sessionId'', Send Success]
   \<and> (\<exists>c. snd (signOut (store_down (Thrown ''ProvisionedThroughputExceededException'' ''Rate exceeded'' (Some 400))) (session_at 5000) sid1) =
                [Status (Some c), Send (Err ''Failed to sign out with '' (Thrown ''ProvisionedThroughputExceededException'' ''Rate exceeded'' (Some 400)))] \<and>
             (c = 400 \<or> c = 500))"
  using signOut_outcome [of "clock 7000 sid2" "session_at 5000" sid1]
    signOut_outcome [of "clock 7000 sid2" signed_out_session sid1]
    signOut_outcome [of "clock 7000 sid2" empty_store sid1]
    signOut_outcome [of "store_down (Thrown ''ProvisionedThroughputExceededException'' ''Rate exceeded'' (Some 400))" "session_at 5000" sid1]
  by (simp add: clock_def store_down_def SESSION_COOKIE_NAME_def statusCodes_def)

text \<open>
  Claim C8. An existing session item stays in the table through any sequence of requests,
  with its \<open>session-id\<close>, \<open>user-id\<close> and \<open>creation-date\<close> as they were. Its
  \<open>invalidated\<close> flag is as it was or true, and stays true once it is; without a
  \<open>signOut\<close> of the session in the sequence the item is unchanged altogether. The
  hypothesis on the sequence is that no \<open>createSession\<close> in it draws the item's session
  id: its \<open>put\<close> is unconditional and the module does not look for a collision.
\<close>

theorem session_only_invalidated:
  assumes "sessions st sid = Some s"
    and "\<forall>x \<in> set tr. random_hex (fst x) \<noteq> sid"
  shows "\<exists>s'. sessions (run B st tr) sid = Some s'
           \<and> session_id s' = session_id s
           \<and> session_user_id s' = session_user_id s
           \<and> creation_date s' = creation_date s
           \<and> (invalidated s' = invalidated s \<or> invalidated s' = Some True)
           \<and> (invalidated s = Some True \<longrightarrow> invalidated s' = Some True)
           \<and> (SignOut sid \<notin> snd ` set tr \<longrightarrow> s' = s)"
  using run_session [OF assms, of B] by auto

theorem session_only_invalidated_witness:
  "\<exists>s'. sessions (run example_bcrypt signed_out_session
            [(clock 7000 sid2, SignUp (JStr ''Alice'') (JStr ''correcthorse'')),
             (clock 8000 sid2, AuthenticateUser sid1),
             (clock 9000 sid2, SignIn (JStr ''alice'') (JStr ''correcthorse'')),
             (clock 9500 sid2, SignOut sid1)]) sid1 = Some s'
      \<and> session_id s' = sid1
      \<and> session_user_id s' = Some ''u-1''
      \<and> creation_date s' = Some 5000
      \<and> invalidated s' = Some True"
proof -
  have a: "sessions signed_out_session sid1 =
      Some \<lparr>session_id = sid1, session_user_id = Some ''u-1'', creation_date = Some 5000,
            invalidated = Some True\<rparr>"
    by (simp add: signed_out_session_def session_at_def clock_def empty_store_def
        createSession_unfold put_session_def signOut_def update_invalidated_def Let_def)
  have c: "sid2 \<noteq> sid1"
    by (simp add: sid1_def sid2_def)
  have e: "random_hex (clock T r) = r" for T r
    by (simp add: clock_def)
  have f: "\<forall>x \<in> set [(clock 7000 sid2, SignUp (JStr ''Alice'') (JStr ''correcthorse'')),
             (clock 8000 sid2, AuthenticateUser sid1),
             (clock 9000 sid2, SignIn (JStr ''alice'') (JStr ''correcthorse'')),
             (clock 9500 sid2, SignOut sid1)]. random_hex (fst x) \<noteq> sid1"
    by (simp add: c e)
  show ?thesis
    using session_only_invalidated [OF a f, of example_bcrypt] by simp
qed

subsection \<open>Signing up and signing in\<close>

text \<open>
  Claim C5. When a user record exists under the lowercased username, \<open>signUp\<close> leaves
  the store as it is, the record and its \<open>password-hash\<close> with it, and never answers
  with the success response, whatever else happens. When the password was hashed and the
  store answers the conditional put, the response is status Conflict with the readable
  message "Username already exists". There is no retry: when the password was hashed,
  the conditional put of the new record is the one call \<open>signUp\<close> makes on the store,
  whether the store rejects it on the condition or fails; when the hashing call failed,
  \<open>signUp\<close> makes no store call at all.
\<close>

theorem signUp_existing_username:
  assumes "users st (toLowerCase u) = Some orig"
  shows "fst (signUp B ev st (JStr u) p) = st
       \<and> users (fst (signUp B ev st (JStr u) p)) (toLowerCase u) = Some orig
       \<and> (\<forall>h. bcrypt_hash B (salt ev) p SALT_ROUNDS = Inr h \<and> users_fault ev = None \<longrightarrow>
            snd (signUp B ev st (JStr u) p) =
              [Status (statusCodes ''Conflict''),
               Send (ErrReadable ''Failed to sign up with error '' ConditionalCheckFailed
                       ''Username already exists'')])
       \<and> (\<forall>x. Json x \<notin> set (snd (signUp B ev st (JStr u) p)))
       \<and> fst (signUp_io B ev st (JStr u) p) = signUp B ev st (JStr u) p
       \<and> (\<forall>h. bcrypt_hash B (salt ev) p SALT_ROUNDS = Inr h \<longrightarrow>
            snd (signUp_io B ev st (JStr u) p) =
              [PutUserIfAbsent
                 \<lparr>username = toLowerCase u, password_hash = h, user_id = uuid ev\<rparr>])
       \<and> (\<forall>e. bcrypt_hash B (salt ev) p SALT_ROUNDS = Inl e \<longrightarrow>
            snd (signUp_io B ev st (JStr u) p) = [])"
proof (intro conjI allI impI)
  show "fst (signUp B ev st (JStr u) p) = st"
    using assms
    by (auto simp: signUp_unfold put_user_if_absent_def Let_def split: sum.splits option.splits)
  then show "users (fst (signUp B ev st (JStr u) p)) (toLowerCase u) = Some orig"
    using assms by simp
next
  fix h
  assume "bcrypt_hash B (salt ev) p SALT_ROUNDS = Inr h \<and> users_fault ev = None"
  with assms show "snd (signUp B ev st (JStr u) p) =
      [Status (statusCodes ''Conflict''),
       Send (ErrReadable ''Failed to sign up with error '' ConditionalCheckFailed
               ''Username already exists'')]"
    by (simp add: signUp_unfold put_user_if_absent_def ConditionalCheckFailed_def)
next
  fix x
  show "Json x \<notin> set (snd (signUp B ev st (JStr u) p))"
  proof
    assume "Json x \<in> set (snd (signUp B ev st (JStr u) p))"
    from signUp_Json [OF this] assms show False
      by auto
  qed
next
  show "fst (signUp_io B ev st (JStr u) p) = signUp B ev st (JStr u) p"
    by (simp add: signUp_def)
next
  fix h
  assume "bcrypt_hash B (salt ev) p SALT_ROUNDS = Inr h"
  with assms show "snd (signUp_io B ev st (JStr u) p) =
      [PutUserIfAbsent \<lparr>username = toLowerCase u, password_hash = h, user_id = uuid ev\<rparr>]"
    by (simp add: signUp_io_def put_user_if_absent_def Let_def split: option.splits)
next
  fix e
  assume "bcrypt_hash B (salt ev) p SALT_ROUNDS = Inl e"
  then show "snd (signUp_io B ev st (JStr u) p) = []"
    by (simp add: signUp_io_def)
qed

text \<open>
  Alice has signed up; a second \<open>signUp\<close> as \<open>ALICE\<close> leaves her record, answers
  Conflict, and has made the conditional put once.
\<close>

theorem signUp_existing_username_witness:
  "fst (signUp example_bcrypt (clock 6000 sid2) alice_signed_up (JStr ''ALICE'') (JStr ''hunter2'')) =
     alice_signed_up
   \<and> users (fst (signUp example_bcrypt (clock 6000 sid2) alice_signed_up (JStr ''ALICE'')
        (JStr ''hunter2''))) ''alice'' = Some alice
   \<and> snd (signUp example_bcrypt (clock 6000 sid2) alice_signed_up (JStr ''ALICE'') (JStr ''hunter2'')) =
     [Status (Some 409),
      Send (ErrReadable ''Failed to sign up with error '' ConditionalCheckFailed
              ''Username already exists'')]
   \<and> snd (signUp_io example_bcrypt (clock 6000 sid2) alice_signed_up (JStr ''ALICE'')
        (JStr ''hunter2'')) =
     [PutUserIfAbsent \<lparr>username = ''alice'', password_hash = ''$2b$hunter2'',
                        user_id = ''110ec58a-a0f2-4ac4-8393-c866d813b8d1''\<rparr>]
   \<and> snd (signUp_io example_bcrypt (clock 6000 sid2) alice_signed_up (JStr ''ALICE'') JUndefined) = []"
proof -
  have a: "users alice_signed_up (toLowerCase ''ALICE'') = Some alice"
    by (simp add: alice_signed_up_users lower_ALICE)
  have b: "bcrypt_hash example_bcrypt (salt (clock 6000 sid2)) (JStr ''hunter2'') SALT_ROUNDS =
      Inr ''$2b$hunter2''"
    by (simp add: example_bcrypt_def)
  have b': "bcrypt_hash example_bcrypt (salt (clock 6000 sid2)) JUndefined SALT_ROUNDS =
      Inl (Thrown ''Error'' ''data and salt arguments required'' None)"
    by (simp add: example_bcrypt_def)
  have c: "users_fault (clock 6000 sid2) = None"
    by (simp add: clock_def)
  have d: "statusCodes ''Conflict'' = Some 409"
    by (simp add: statusCodes_def)
  have e: "uuid (clock 6000 sid2) = ''110ec58a-a0f2-4ac4-8393-c866d813b8d1''"
    by (simp add: clock_def)
  show ?thesis
    using signUp_existing_username [OF a, of example_bcrypt "clock 6000 sid2" "JStr ''hunter2''"]
      signUp_existing_username [OF a, of example_bcrypt "clock 6000 sid2" JUndefined]
      b b' c d e lower_ALICE
    by (simp add: alice_signed_up_users)
qed

text \<open>
  Claim C7. When the read of the users table succeeds, \<open>signIn\<close> answers Not Found
  "Username not found" when there is no record under the lowercased username, and
  Unauthorized "Incorrect password" when there is one and the comparison with its hash
  says no. The two responses differ in status and in message.
\<close>

theorem signIn_failures:
  assumes "users_fault ev = None"
  shows "(users st (toLowerCase u) = None \<longrightarrow>
            signIn B ev st (JStr u) p =
              Inr (st, [Status (statusCodes ''Not Found''), Send (Readable ''Username not found'')]))
       \<and> (\<forall>usr. users st (toLowerCase u) = Some usr \<and>
                 bcrypt_compare B p (password_hash usr) = Inr False \<longrightarrow>
            signIn B ev st (JStr u) p =
              Inr (st, [Status (statusCodes ''Unauthorized''), Send (Readable ''Incorrect password'')]))
       \<and> statusCodes ''Not Found'' \<noteq> statusCodes ''Unauthorized''
       \<and> Readable ''Username not found'' \<noteq> Readable ''Incorrect password''"
  using assms by (simp add: signIn_def get_user_def statusCodes_def)

theorem signIn_failures_witness:
  "signIn example_bcrypt (clock 6000 sid2) alice_signed_up (JStr ''Bob'') (JStr ''correcthorse'') =
     Inr (alice_signed_up, [Status (Some 404), Send (Readable ''Username not found'')])
   \<and> signIn example_bcrypt (clock 6000 sid2) alice_signed_up (JStr ''Alice'') (JStr ''hunter2'') =
     Inr (alice_signed_up, [Status (Some 401), Send (Readable ''Incorrect password'')])"
proof -
  have a: "users_fault (clock 6000 sid2) = None"
    by (simp add: clock_def)
  have b: "toLowerCase ''Bob'' = ''bob''"
    by code_simp
  have c: "users alice_signed_up (toLowerCase ''Bob'') = None"
    by (simp add: alice_signed_up_users b)
  have d: "users alice_signed_up (toLowerCase ''Alice'') = Some alice"
    by (simp add: alice_signed_up_users lower_Alice)
  have e: "bcrypt_compare example_bcrypt (JStr ''hunter2'') (password_hash alice) = Inr False"
    by (simp add: example_bcrypt_def alice_def)
  have f: "statusCodes ''Not Found'' = Some 404" "statusCodes ''Unauthorized'' = Some 401"
    by (simp_all add: statusCodes_def)
  show ?thesis
    using signIn_failures [OF a, of alice_signed_up "''Bob''" example_bcrypt "JStr ''correcthorse''"]
      signIn_failures [OF a, of alice_signed_up "''Alice''" example_bcrypt "JStr ''hunter2''"]
      c d e f
    by simp
qed

text \<open>
  Claim C6. Let the hashing library accept, in \<open>compare\<close>, every hash that its
  \<open>hash\<close> made of the same data. When \<open>signUp\<close> succeeded (it sent the user record
  \<open>x\<close>), \<open>signIn\<close> with the same username and password on the store it left, the
  store answering, succeeds as well and sends a record with the \<open>user-id\<close> of \<open>x\<close>.
\<close>

theorem signUp_then_signIn:
  assumes "\<forall>s d h. bcrypt_hash B s d SALT_ROUNDS = Inr h \<longrightarrow> bcrypt_compare B d h = Inr True"
    and "Json x \<in> set (snd (signUp B ev st uv p))"
    and "users_fault ev' = None" and "sessions_fault ev' = None"
  shows "\<exists>st' calls y. signIn B ev' (fst (signUp B ev st uv p)) uv p = Inr (st', calls @ [Json y])
           \<and> user_id y = user_id x"
proof -
  from signUp_Json [OF assms(2)] obtain u where u: "uv = JStr u"
    and h: "bcrypt_hash B (salt ev) p SALT_ROUNDS = Inr (password_hash x)"
    and st: "users (fst (signUp B ev st uv p)) = (users st)(toLowerCase u \<mapsto> x)"
    by blast
  from st have stored: "users (fst (signUp B ev st uv p)) (toLowerCase u) = Some x"
    by simp
  from assms(1) h have "bcrypt_compare B p (password_hash x) = Inr True"
    by blast
  from signIn_success [OF stored this assms(3,4)] u show ?thesis
    by auto
qed

theorem signUp_then_signIn_witness:
  "\<exists>st' calls y.
     signIn example_bcrypt (clock 6000 sid2)
       (fst (signUp example_bcrypt (clock 5000 sid1) empty_store (JStr ''Alice'')
          (JStr ''correcthorse'')))
       (JStr ''Alice'') (JStr ''correcthorse'') = Inr (st', calls @ [Json y])
     \<and> user_id y = ''110ec58a-a0f2-4ac4-8393-c866d813b8d1''"
proof -
  have a: "Json alice \<in> set (snd (signUp example_bcrypt (clock 5000 sid1) empty_store
      (JStr ''Alice'') (JStr ''correcthorse'')))"
    by (simp add: alice_signed_up_eq)
  have b: "user_id alice = ''110ec58a-a0f2-4ac4-8393-c866d813b8d1''"
    by (simp add: alice_def)
  show ?thesis
    using signUp_then_signIn [OF example_bcrypt_contract a clock_faults, of 6000 sid2] b
    by simp
qed

text \<open>
  Claim C10. On success \<open>signUp\<close> ends with \<open>res.json\<close> of the record it inserted,
  whose \<open>password-hash\<close> is the digest the hashing call returned, and \<open>signIn\<close>
  ends with \<open>res.json\<close> of the record it read from the users table. Conversely the
  only record either handler sends is that one. The body is the whole record, the
  \<open>password-hash\<close> attribute included.
\<close>

theorem success_sends_stored_record:
  "(\<forall>h u. uv = JStr u \<and> bcrypt_hash B (salt ev) p SALT_ROUNDS = Inr h \<and>
           users st (toLowerCase u) = None \<and> users_fault ev = None \<and> sessions_fault ev = None \<longrightarrow>
      (\<exists>st' calls. signUp B ev st uv p =
         (st', calls @ [Json \<lparr>username = toLowerCase u, password_hash = h, user_id = uuid ev\<rparr>]) \<and>
         users st' (toLowerCase u) =
           Some \<lparr>username = toLowerCase u, password_hash = h, user_id = uuid ev\<rparr>))
   \<and> (\<forall>u x. uv = JStr u \<and> users st (toLowerCase u) = Some x \<and>
             bcrypt_compare B p (password_hash x) = Inr True \<and>
             users_fault ev = None \<and> sessions_fault ev = None \<longrightarrow>
        (\<exists>st' calls. signIn B ev st uv p = Inr (st', calls @ [Json x])))
   \<and> (\<forall>x. Json x \<in> set (snd (signUp B ev st uv p)) \<longrightarrow>
        bcrypt_hash B (salt ev) p SALT_ROUNDS = Inr (password_hash x) \<and>
        users (fst (signUp B ev st uv p)) (username x) = Some x)
   \<and> (\<forall>r x. signIn B ev st uv p = Inr r \<and> Json x \<in> set (snd r) \<longrightarrow>
        (\<exists>u. uv = JStr u \<and> users st (toLowerCase u) = Some x))"
proof (intro conjI allI impI)
  fix h u
  assume "uv = JStr u \<and> bcrypt_hash B (salt ev) p SALT_ROUNDS = Inr h \<and>
           users st (toLowerCase u) = None \<and> users_fault ev = None \<and> sessions_fault ev = None"
  then show "\<exists>st' calls. signUp B ev st uv p =
         (st', calls @ [Json \<lparr>username = toLowerCase u, password_hash = h, user_id = uuid ev\<rparr>]) \<and>
         users st' (toLowerCase u) =
           Some \<lparr>username = toLowerCase u, password_hash = h, user_id = uuid ev\<rparr>"
    using signUp_success [of B ev p h st u] by auto
next
  fix u x
  assume "uv = JStr u \<and> users st (toLowerCase u) = Some x \<and>
             bcrypt_compare B p (password_hash x) = Inr True \<and>
             users_fault ev = None \<and> sessions_fault ev = None"
  then show "\<exists>st' calls. signIn B ev st uv p = Inr (st', calls @ [Json x])"
    using signIn_success [of st u x B p ev] by auto
next
  fix x
  assume a: "Json x \<in> set (snd (signUp B ev st uv p))"
  from signUp_Json [OF a] show "bcrypt_hash B (salt ev) p SALT_ROUNDS = Inr (password_hash x)"
    by blast
  from signUp_Json [OF a] obtain u where
    "x = \<lparr>username = toLowerCase u, password_hash = password_hash x, user_id = uuid ev\<rparr>"
    "users (fst (signUp B ev st uv p)) = (users st)(toLowerCase u \<mapsto> x)"
    by blast
  then have "username x = toLowerCase u"
    "users (fst (signUp B ev st uv p)) (toLowerCase u) = Some x"
    by (metis user.select_convs(1), simp)
  then show "users (fst (signUp B ev st uv p)) (username x) = Some x"
    by simp
next
  fix r x
  assume "signIn B ev st uv p = Inr r \<and> Json x \<in> set (snd r)"
  then have "signIn B ev st uv p = Inr r" "Json x \<in> set (snd r)"
    by simp_all
  from signIn_Json [OF this] show "\<exists>u. uv = JStr u \<and> users st (toLowerCase u) = Some x"
    by blast
qed

theorem success_sends_stored_record_witness:
  "(\<exists>st' calls. signUp example_bcrypt (clock 5000 sid1) empty_store (JStr ''Alice'')
      (JStr ''correcthorse'') =
       (st', calls @ [Json \<lparr>username = ''alice'', password_hash = ''$2b$correcthorse'',
           user_id = ''110ec58a-a0f2-4ac4-8393-c866d813b8d1''\<rparr>]))
   \<and> (\<exists>st' calls. signIn example_bcrypt (clock 6000 sid2) alice_signed_up (JStr ''Alice'')
             (JStr ''correcthorse'') =
       Inr (st', calls @ [Json \<lparr>username = ''alice'', password_hash = ''$2b$correcthorse'',
                  user_id = ''110ec58a-a0f2-4ac4-8393-c866d813b8d1''\<rparr>]))"
proof -
  have a: "bcrypt_hash example_bcrypt (salt (clock 5000 sid1)) (JStr ''correcthorse'') SALT_ROUNDS =
      Inr ''$2b$correcthorse''"
    by (simp add: example_bcrypt_def)
  have b: "users empty_store (toLowerCase ''Alice'') = None"
    by (simp add: empty_store_def)
  have c: "users alice_signed_up (toLowerCase ''Alice'') = Some alice"
    by (simp add: alice_signed_up_users lower_Alice)
  have d: "bcrypt_compare example_bcrypt (JStr ''correcthorse'') (password_hash alice) = Inr True"
    by (simp add: example_bcrypt_def alice_def)
  have e: "uuid (clock 5000 sid1) = ''110ec58a-a0f2-4ac4-8393-c866d813b8d1''"
    by (simp add: clock_def)
  have f: "alice = \<lparr>username = ''alice'', password_hash = ''$2b$correcthorse'',
           user_id = ''110ec58a-a0f2-4ac4-8393-c866d813b8d1''\<rparr>"
    by (simp add: alice_def)
  from success_sends_stored_record
    [of "JStr ''Alice''" example_bcrypt "clock 5000 sid1" "JStr ''correcthorse''" empty_store]
    a b clock_faults [of 5000 sid1] e lower_Alice
  have g: "\<exists>st' calls. signUp example_bcrypt (clock 5000 sid1) empty_store (JStr ''Alice'')
      (JStr ''correcthorse'') =
       (st', calls @ [Json \<lparr>username = ''alice'', password_hash = ''$2b$correcthorse'',
           user_id = ''110ec58a-a0f2-4ac4-8393-c866d813b8d1''\<rparr>])"
    by auto
  from success_sends_stored_record
    [of "JStr ''Alice''" example_bcrypt "clock 6000 sid2" "JStr ''correcthorse''" alice_signed_up]
    c d clock_faults [of 6000 sid2]
  have "\<exists>st' calls. signIn example_bcrypt (clock 6000 sid2) alice_signed_up (JStr ''Alice'')
             (JStr ''correcthorse'') = Inr (st', calls @ [Json alice])"
    by auto
  with g f show ?thesis
    by simp
qed

text \<open>
  Claim C4 does not hold: \<open>signUp\<close> has no validation step. With the blank password
  the record is written and returned; with no password the response is that of the outer
  \<open>catch\<close>, status Internal Server Error, not a Bad Request failure.
\<close>

theorem signUp_blank_password_counterexample:
  "signUp example_bcrypt (clock 5000 sid1) empty_store (JStr ''Alice'') (JStr '''') =
     (\<lparr>users = [''alice'' \<mapsto>
          \<lparr>username = ''alice'', password_hash = ''$2b$'',
           user_id = ''110ec58a-a0f2-4ac4-8393-c866d813b8d1''\<rparr>],
       sessions = [sid1 \<mapsto>
          \<lparr>session_id = sid1, session_user_id = Some ''110ec58a-a0f2-4ac4-8393-c866d813b8d1'',
           creation_date = Some 5000, invalidated = None\<rparr>]\<rparr>,
      [session_cookie sid1,
       Json \<lparr>username = ''alice'', password_hash = ''$2b$'',
             user_id = ''110ec58a-a0f2-4ac4-8393-c866d813b8d1''\<rparr>])
   \<and> signUp example_bcrypt (clock 5000 sid1) empty_store (JStr ''Alice'') JUndefined =
     (empty_store,
      [Status (Some 500),
       Send (Err ''Failed to sign up with ''
               (Thrown ''Error'' ''data and salt arguments required'' None))])
   \<and> statusCodes ''Bad Request'' = Some 400"
  by (simp add: signUp_unfold signUp_catch_def example_bcrypt_def clock_def empty_store_def
      lower_Alice put_user_if_absent_def createSession_unfold put_session_def session_cookie_def
      SESSION_COOKIE_NAME_def SESSION_LENGTH_def oneDayMs_def or_else_def statusCodes_def
      Let_def)

text \<open>
  Claim C4 as amended. \<open>signUp\<close> passes the password to the hashing call as it is. When
  the call fails, \<open>signUp\<close> writes nothing and responds with the error's status code,
  or Internal Server Error when it has none. When the call succeeds, whatever the
  password, \<open>signUp\<close> goes on to the conditional put, and with a string username not
  yet taken and the store answering, the record with that hash is in the users table.
  Every error \<open>signUp\<close> sends in a response is the one the hashing call failed with,
  the one a store call failed with (the conditional put's
  \<open>ConditionalCheckFailedException\<close> among them), the \<open>TypeError\<close> of
  \<open>username.toLowerCase()\<close>, or its own \<open>Error('Failed to create session')\<close>.
\<close>

theorem signUp_hashes_unvalidated_password:
  "(\<forall>e. bcrypt_hash B (salt ev) p SALT_ROUNDS = Inl e \<longrightarrow>
      signUp B ev st uv p =
        (st, [Status (or_else (statusCode e) (statusCodes ''Internal Server Error'')),
              Send (Err ''Failed to sign up with '' e)]))
   \<and> (\<forall>h u. bcrypt_hash B (salt ev) p SALT_ROUNDS = Inr h \<and> uv = JStr u \<and>
           users st (toLowerCase u) = None \<and> users_fault ev = None \<and> sessions_fault ev = None \<longrightarrow>
        users (fst (signUp B ev st uv p)) (toLowerCase u) =
          Some \<lparr>username = toLowerCase u, password_hash = h, user_id = uuid ev\<rparr>)
   \<and> (\<forall>t e m. Send (Err t e) \<in> set (snd (signUp B ev st uv p)) \<or>
               Send (ErrReadable t e m) \<in> set (snd (signUp B ev st uv p)) \<longrightarrow>
        bcrypt_hash B (salt ev) p SALT_ROUNDS = Inl e \<or>
        users_fault ev = Some e \<or> sessions_fault ev = Some e \<or>
        e = ConditionalCheckFailed \<or> e = TypeError \<or>
        e = Error ''Failed to create session'')"
proof (intro conjI allI impI)
  fix e
  assume "bcrypt_hash B (salt ev) p SALT_ROUNDS = Inl e"
  then show "signUp B ev st uv p =
        (st, [Status (or_else (statusCode e) (statusCodes ''Internal Server Error'')),
              Send (Err ''Failed to sign up with '' e)])"
    by (simp add: signUp_unfold signUp_catch_def)
next
  fix h u
  assume "bcrypt_hash B (salt ev) p SALT_ROUNDS = Inr h \<and> uv = JStr u \<and>
           users st (toLowerCase u) = None \<and> users_fault ev = None \<and> sessions_fault ev = None"
  then show "users (fst (signUp B ev st uv p)) (toLowerCase u) =
          Some \<lparr>username = toLowerCase u, password_hash = h, user_id = uuid ev\<rparr>"
    using signUp_success [of B ev p h st u] by auto
next
  fix t e m
  assume "Send (Err t e) \<in> set (snd (signUp B ev st uv p)) \<or>
          Send (ErrReadable t e m) \<in> set (snd (signUp B ev st uv p))"
  then show "bcrypt_hash B (salt ev) p SALT_ROUNDS = Inl e \<or>
        users_fault ev = Some e \<or> sessions_fault ev = Some e \<or>
        e = ConditionalCheckFailed \<or> e = TypeError \<or>
        e = Error ''Failed to create session''"
    by (cases uv)
      (auto simp: signUp_unfold signUp_catch_def put_user_if_absent_def createSession_unfold
        put_session_def Let_def split: sum.splits option.splits if_splits)
qed

text \<open>
  No password: the hashing call's error is sent with status Internal Server Error and the
  store is as before. The blank password: the record is in the users table.
\<close>

theorem signUp_hashes_unvalidated_password_witness:
  "signUp example_bcrypt (clock 5000 sid1) empty_store (JStr ''Alice'') JNull =
     (empty_store,
      [Status (Some 500),
       Send (Err ''Failed to sign up with ''
               (Thrown ''Error'' ''data and salt arguments required'' None))])
   \<and> users (fst (signUp example_bcrypt (clock 5000 sid1) empty_store (JStr ''Alice'') (JStr '''')))
       ''alice'' =
     Some \<lparr>username = ''alice'', password_hash = ''$2b$'',
           user_id = ''110ec58a-a0f2-4ac4-8393-c866d813b8d1''\<rparr>"
proof -
  have a: "bcrypt_hash example_bcrypt (salt (clock 5000 sid1)) JNull SALT_ROUNDS =
      Inl (Thrown ''Error'' ''data and salt arguments required'' None)"
    by (simp add: example_bcrypt_def)
  have b: "bcrypt_hash example_bcrypt (salt (clock 5000 sid1)) (JStr '''') SALT_ROUNDS =
      Inr ''$2b$''"
    by (simp add: example_bcrypt_def)
  have c: "users empty_store (toLowerCase ''Alice'') = None"
    by (simp add: empty_store_def)
  have d: "uuid (clock 5000 sid1) = ''110ec58a-a0f2-4ac4-8393-c866d813b8d1''"
    by (simp add: clock_def)
  have e: "or_else None (statusCodes ''Internal Server Error'') = Some 500"
    by (simp add: or_else_def statusCodes_def)
  from signUp_hashes_unvalidated_password
        [of example_bcrypt "clock 5000 sid1" JNull empty_store "JStr ''Alice''"] a e
  have first: "signUp example_bcrypt (clock 5000 sid1) empty_store (JStr ''Alice'') JNull =
     (empty_store,
      [Status (Some 500),
       Send (Err ''Failed to sign up with ''
               (Thrown ''Error'' ''data and salt arguments required'' None))])"
    by simp
  from signUp_hashes_unvalidated_password
        [of example_bcrypt "clock 5000 sid1" "JStr ''''" empty_store "JStr ''Alice''"]
      b c d clock_faults [of 5000 sid1] lower_Alice
  have "users (fst (signUp example_bcrypt (clock 5000 sid1) empty_store (JStr ''Alice'') (JStr '''')))
       ''alice'' =
     Some \<lparr>username = ''alice'', password_hash = ''$2b$'',
           user_id = ''110ec58a-a0f2-4ac4-8393-c866d813b8d1''\<rparr>"
    by simp
  with first show ?thesis
    by simp
qed

end
